theory Spec2Isabelle
  imports Complex_Main "HOL-Library.Word" "HOL-Library.Log_Nat" "HOL-Library.Signed_Division"
    "HOL-Library.Sublist"
begin

section \<open>Instants, durations and the duration formatter\<close>

text \<open>
  A \<^verbatim>\<open>time.Time\<close> is modelled by its reading in nanoseconds since Go's zero time
  (January 1, year 1, UTC), an unbounded integer. \<^verbatim>\<open>time.Duration\<close> is an
  \<^verbatim>\<open>int64\<close> count of nanoseconds. \<^verbatim>\<open>Time.Sub\<close> returns the difference of the two
  readings when it fits, and the extreme duration otherwise; when both instants carry a
  monotonic reading Go subtracts those readings instead, with the same saturation.
\<close>

type_synonym instant = int

type_synonym Duration = int

definition zeroTime :: instant where
  "zeroTime = 0"

definition minDuration :: Duration where
  "minDuration = - (2 ^ 63)"

definition maxDuration :: Duration where
  "maxDuration = 2 ^ 63 - 1"

definition Second :: Duration where
  "Second = 1000000000"

definition Sub :: "instant \<Rightarrow> instant \<Rightarrow> Duration" where
  "Sub t u =
     (let d = t - u
      in if d < minDuration then minDuration
         else if maxDuration < d then maxDuration
         else d)"

text \<open>
  A finite \<^verbatim>\<open>float64\<close> is the rational it denotes. Every float operation returns the
  exact result rounded to the nearest value with a 53-bit mantissa, ties to the even
  mantissa. All values that occur below have a magnitude between \<open>10\<^sup>-\<^sup>9\<close> and
  \<open>2\<^sup>3\<^sup>4\<close> (or are 0), so the exponent limits of the format never come into play.
\<close>

definition pow2 :: "int \<Rightarrow> rat" where
  "pow2 e = (if 0 \<le> e then 2 ^ nat e else 1 / 2 ^ nat (- e))"

definition binexp :: "rat \<Rightarrow> int" where
  \<comment> \<open>the binary exponent of a nonzero value: \<open>pow2 (binexp x) \<le> \<bar>x\<bar> < pow2 (binexp x + 1)\<close>\<close>
  "binexp x =
     (let (p, q) = quotient_of \<bar>x\<bar>; k = bitlen p - bitlen q
      in if pow2 k \<le> \<bar>x\<bar> then k else k - 1)"

definition round_half_even :: "rat \<Rightarrow> int" where
  "round_half_even x =
     (let f = \<lfloor>x\<rfloor>; r = x - of_int f
      in if r < 1 / 2 then f
         else if 1 / 2 < r then f + 1
         else if even f then f else f + 1)"

definition float64 :: "rat \<Rightarrow> rat" where
  "float64 x =
     (if x = 0 then 0
      else let ulp = pow2 (binexp x - 52)
           in of_int (round_half_even (x / ulp)) * ulp)"

text \<open>
  \<^verbatim>\<open>Duration.Seconds\<close>:
  \<^verbatim>\<open>sec := d / Second; nsec := d % Second; return float64(sec) + float64(nsec)/1e9\<close>.
  Go's integer division truncates towards zero.
\<close>

definition Seconds :: "Duration \<Rightarrow> rat" where
  "Seconds d =
     (let sec = d sdiv Second; nsec = d smod Second
      in float64 (float64 (of_int sec) + float64 (float64 (of_int nsec) / 1000000000)))"

text \<open>
  \<^verbatim>\<open>fmt.Sprintf("%.3f", x)\<close> for a finite \<open>x\<close>: the sign, then the exact value
  of \<open>\<bar>x\<bar>\<close> rounded to three decimals (ties to even), as integer digits, a dot and
  three fraction digits.
\<close>

definition digit :: "int \<Rightarrow> char" where
  "digit d = ''0123456789'' ! nat (d mod 10)"

function digits :: "int \<Rightarrow> string" where
  "digits n = (if n < 10 then [digit n] else digits (n div 10) @ [digit n])"
  by pat_completeness auto
termination
  by (relation "measure nat") auto

declare digits.simps [simp del]

definition Sprintf_3f :: "rat \<Rightarrow> string" where
  "Sprintf_3f x =
     (let m = round_half_even (\<bar>x\<bar> * 1000)
      in (if x < 0 then ''-'' else '''')
         @ digits (m div 1000)
         @ ''.''
         @ [digit (m div 100), digit (m div 10), digit m])"

definition calculateDuration :: "instant \<Rightarrow> instant \<Rightarrow> string" where
  "calculateDuration start end' = Sprintf_3f (Seconds (Sub end' start))"

section \<open>The report hierarchy\<close>

text \<open>
  Each struct is a record. A pointer to a report is modelled by the report it points to,
  \<open>None\<close> for a nil pointer: every function below writes only to the fields of its
  receiver and only reads what its pointers lead to. A slice is the list of its elements
  (a nil slice and an empty one are both \<open>[]\<close>). Go's \<^verbatim>\<open>int\<close> is taken at 64 bits.
\<close>

type_synonym OperationType = string

definition OperationTypeCreate :: OperationType where "OperationTypeCreate = ''create''"
definition OperationTypeDelete :: OperationType where "OperationTypeDelete = ''delete''"
definition OperationTypeApply :: OperationType where "OperationTypeApply = ''apply''"
definition OperationTypeAssert :: OperationType where "OperationTypeAssert = ''assert''"
definition OperationTypeError :: OperationType where "OperationTypeError = ''error''"
definition OperationTypeScript :: OperationType where "OperationTypeScript = ''script''"
definition OperationTypeCommand :: OperationType where "OperationTypeCommand = ''command''"

record Failure =
  Message :: string
  Type :: string

record OperationReport =
  Name :: string
  StartTime :: instant
  EndTime :: instant
  Time :: string
  Result :: string
  Message :: string
  OperationType :: OperationType

record TestSpecStepReport =
  Name :: string
  Results :: "OperationReport option list"

record TestReport =
  Name :: string
  StartTime :: instant
  EndTime :: instant
  Time :: string
  Failure :: "Failure option"
  Steps :: "TestSpecStepReport option list"
  Concurrent :: bool
  Namespace :: string
  Skip :: bool
  SkipDelete :: bool

record TestsReport =
  Name :: string
  StartTime :: instant
  EndTime :: instant
  Time :: string
  Reports :: "TestReport option list"
  Failures :: "64 word"

subsection \<open>Constructors\<close>

text \<open>\<^verbatim>\<open>time.Now()\<close> is the argument \<open>now\<close>; fields a literal leaves out hold their zero value.\<close>

definition NewTests :: "instant \<Rightarrow> string \<Rightarrow> TestsReport" where
  "NewTests now name =
     \<lparr>TestsReport.Name = name, TestsReport.StartTime = now, TestsReport.EndTime = zeroTime,
      TestsReport.Time = '''', Reports = [], Failures = 0\<rparr>"

definition NewTest :: "instant \<Rightarrow> string \<Rightarrow> bool \<Rightarrow> string \<Rightarrow> bool \<Rightarrow> bool \<Rightarrow> TestReport" where
  "NewTest now name concurrent namespace skip skipDelete =
     \<lparr>TestReport.Name = name, TestReport.StartTime = now, TestReport.EndTime = zeroTime,
      TestReport.Time = '''', Failure = None, Steps = [], Concurrent = concurrent,
      Namespace = namespace, Skip = skip, SkipDelete = skipDelete\<rparr>"

definition NewTestSpecStep :: "string \<Rightarrow> TestSpecStepReport" where
  "NewTestSpecStep name = \<lparr>TestSpecStepReport.Name = name, Results = []\<rparr>"

definition NewOperation :: "instant \<Rightarrow> string \<Rightarrow> OperationType \<Rightarrow> OperationReport" where
  "NewOperation now name operationType =
     \<lparr>OperationReport.Name = name, OperationReport.StartTime = now,
      OperationReport.EndTime = zeroTime, OperationReport.Time = '''', Result = '''',
      OperationReport.Message = '''', OperationType = operationType\<rparr>"

subsection \<open>Mutators\<close>

definition AddTest :: "TestReport option \<Rightarrow> TestsReport \<Rightarrow> TestsReport" where
  "AddTest test tr = tr\<lparr>Reports := Reports tr @ [test]\<rparr>"

definition AddTestStep :: "TestSpecStepReport option \<Rightarrow> TestReport \<Rightarrow> TestReport" where
  "AddTestStep step t = t\<lparr>Steps := Steps t @ [step]\<rparr>"

definition AddOperation :: "OperationReport option \<Rightarrow> TestSpecStepReport \<Rightarrow> TestSpecStepReport" where
  "AddOperation op ts = ts\<lparr>Results := Results ts @ [op]\<rparr>"

definition MarkTestEnd :: "instant \<Rightarrow> TestReport \<Rightarrow> TestReport" where
  "MarkTestEnd now t =
     (let t1 = t\<lparr>TestReport.EndTime := now\<rparr>
      in t1\<lparr>TestReport.Time := calculateDuration (TestReport.StartTime t1) (TestReport.EndTime t1)\<rparr>)"

definition MarkOperationEnd :: "instant \<Rightarrow> OperationReport \<Rightarrow> OperationReport" where
  "MarkOperationEnd now op =
     (let op1 = op\<lparr>OperationReport.EndTime := now\<rparr>
      in op1\<lparr>OperationReport.Time :=
               calculateDuration (OperationReport.StartTime op1) (OperationReport.EndTime op1)\<rparr>)"

subsection \<open>Close\<close>

text \<open>
  The loop of \<^verbatim>\<open>Close\<close> ranges over the slice held in \<^verbatim>\<open>tr.Reports\<close> when it
  starts. Reading \<^verbatim>\<open>test.Failure\<close> through a nil element panics; the suite then keeps
  what was written to it before.
\<close>

datatype panic = nil_pointer_dereference

fun Close_loop :: "TestReport option list \<Rightarrow> TestsReport \<Rightarrow> panic option \<times> TestsReport" where
  "Close_loop [] tr = (None, tr)"
| "Close_loop (None # tests) tr = (Some nil_pointer_dereference, tr)"
| "Close_loop (Some test # tests) tr =
     Close_loop tests (if Failure test \<noteq> None then tr\<lparr>Failures := Failures tr + 1\<rparr> else tr)"

definition Close :: "instant \<Rightarrow> TestsReport \<Rightarrow> panic option \<times> TestsReport" where
  "Close now tr =
     (let tr1 = tr\<lparr>TestsReport.EndTime := now\<rparr>;
          tr2 = tr1\<lparr>TestsReport.Time :=
                      calculateDuration (TestsReport.StartTime tr1) (TestsReport.EndTime tr1)\<rparr>
      in Close_loop (Reports tr2) tr2)"

section \<open>Serializers and persistence\<close>

text \<open>
  A Go \<^verbatim>\<open>error\<close> is a value of the type \<open>error\<close>: one made by \<^verbatim>\<open>errors.New\<close>, or one
  that an encoder or the operating system made, known by a code only. A function that
  returns \<^verbatim>\<open>(value, error)\<close> returns a sum, \<open>Inl\<close> for the error; one that returns
  \<^verbatim>\<open>error\<close> alone returns \<open>error option\<close>, \<open>None\<close> for nil.
\<close>

datatype error = errors_New string | foreign_error nat

text \<open>
  The two format identifiers \<^verbatim>\<open>v1alpha1.JSONFormat\<close> and \<^verbatim>\<open>v1alpha1.XMLFormat\<close>
  are constants of a package that is not part of the sources at hand; they are taken as
  parameters. \<^verbatim>\<open>ReportFormatType\<close> is a string type.
\<close>

type_synonym ReportFormatType = string

record v1alpha1 =
  JSONFormat :: ReportFormatType
  XMLFormat :: ReportFormatType


datatype ReportSerializer = JSONSerializer | XMLSerializer




definition GetSerializer :: "v1alpha1 \<Rightarrow> ReportFormatType \<Rightarrow> error + ReportSerializer" where
  "GetSerializer v format =
     (if format = JSONFormat v then Inr JSONSerializer
      else if format = XMLFormat v then Inr XMLSerializer
      else Inl (errors_New ''unsupported report format''))"




section \<open>The structured document\<close>










section \<open>Sequences of operations\<close>

text \<open>
  The operations of the package that write to a suite, to a test and to a step, for the
  statement that none of them removes or reorders the elements of a sequence. A suite that
  \<^verbatim>\<open>Close\<close> panicked on is continued in the state the panic left.
\<close>

datatype suite_op = Op_AddTest "TestReport option" | Op_Close instant

fun suite_step :: "suite_op \<Rightarrow> TestsReport \<Rightarrow> TestsReport" where
  "suite_step (Op_AddTest test) tr = AddTest test tr"
| "suite_step (Op_Close now) tr = snd (Close now tr)"

datatype test_op = Op_AddTestStep "TestSpecStepReport option" | Op_MarkTestEnd instant

fun test_step :: "test_op \<Rightarrow> TestReport \<Rightarrow> TestReport" where
  "test_step (Op_AddTestStep step) t = AddTestStep step t"
| "test_step (Op_MarkTestEnd now) t = MarkTestEnd now t"

datatype step_op = Op_AddOperation "OperationReport option"

fun step_step :: "step_op \<Rightarrow> TestSpecStepReport \<Rightarrow> TestSpecStepReport" where
  "step_step (Op_AddOperation op) ts = AddOperation op ts"

section \<open>Notions of the specification\<close>


text \<open>
  The pattern \<^verbatim>\<open>-?\d+\.\d{3}\<close>, matched against the whole string, and the number
  such a string denotes.
\<close>

definition is_digit :: "char \<Rightarrow> bool" where
  "is_digit c = (c \<in> set ''0123456789'')"

definition has_minus :: "string \<Rightarrow> bool" where
  "has_minus s = (case s of [] \<Rightarrow> False | c # r \<Rightarrow> c = CHR ''-'')"

definition unsigned_part :: "string \<Rightarrow> string" where
  "unsigned_part s = (if has_minus s then tl s else s)"

definition matches_fixed3 :: "string \<Rightarrow> bool" where
  "matches_fixed3 s =
     (let t = unsigned_part s; whole = takeWhile is_digit t; rest = dropWhile is_digit t
      in whole \<noteq> [] \<and> length rest = 4 \<and> hd rest = CHR ''.'' \<and> list_all is_digit (tl rest))"

definition digit_value :: "char \<Rightarrow> int" where
  "digit_value c = int (of_char c) - 48"

definition decimal :: "string \<Rightarrow> int" where
  "decimal s = foldl (\<lambda>a c. 10 * a + digit_value c) 0 s"

definition fixed3_value :: "string \<Rightarrow> rat" where
  "fixed3_value s =
     (let t = unsigned_part s;
          v = of_int (decimal (takeWhile is_digit t))
              + of_int (decimal (tl (dropWhile is_digit t))) / 1000
      in if has_minus s then - v else v)"

section \<open>Example reports\<close>

definition failing_test :: TestReport where
  "failing_test =
     (NewTest 0 ''t1'' False ''ns1'' False False)
       \<lparr>Failure := Some \<lparr>Failure.Message = ''boom'', Type = ''AssertionError''\<rparr>\<rparr>"


text \<open>
  The run of the specification's end-to-end scenario: an operation \<open>op1\<close> of kind
  \<open>apply\<close> in a step \<open>step1\<close> of a test \<open>t1\<close> of the suite \<open>smoke\<close>, with the
  instants at which the runner reads the clock.
\<close>

definition smoke_test :: TestReport where
  "smoke_test =
     MarkTestEnd 40000000
       (AddTestStep
          (Some (AddOperation
                   (Some (MarkOperationEnd 30000000 (NewOperation 20000000 ''op1'' OperationTypeApply)))
                   (NewTestSpecStep ''step1'')))
          (NewTest 10000000 ''t1'' False ''ns1'' False False))"

definition smoke_suite :: TestsReport where
  "smoke_suite = AddTest (Some smoke_test) (NewTests 0 ''smoke'')"

text \<open>
  An example of the parameters: the identifiers \<open>JSON\<close> and \<open>XML\<close>, encoders that
  write a fixed text (the markup encoder fails on a suite without a name), and a file
  system that maps a path to the data and permission bits last written to it and refuses
  the empty path.
\<close>

definition example_formats :: v1alpha1 where
  "example_formats = \<lparr>JSONFormat = ''JSON'', XMLFormat = ''XML''\<rparr>"


section \<open>Rounding to a float64\<close>

lemma pow2_powi: "pow2 e = 2 powi e"
  by (simp add: pow2_def power_int_def power_one_over)

lemma pow2_pos [simp]: "0 < pow2 e"
  by (simp add: pow2_powi)

lemma pow2_add: "pow2 (a + b) = pow2 a * pow2 b"
  by (simp add: pow2_powi power_int_add)

lemma pow2_mono: "a \<le> b \<Longrightarrow> pow2 a \<le> pow2 b"
  by (simp add: pow2_powi power_int_increasing)

lemma pow2_strict_mono: "a < b \<Longrightarrow> pow2 a < pow2 b"
  by (simp add: pow2_powi power_int_strict_increasing)

lemma pow2_less_cancel: "pow2 a < pow2 b \<Longrightarrow> a < b"
  using pow2_mono [of b a] by (cases "a < b") auto

lemma pow2_nat: "pow2 (int n) = 2 ^ n"
  by (simp add: pow2_def)

lemma bitlen_pow2_bounds:
  assumes "0 < p"
  shows "pow2 (bitlen p - 1) \<le> of_int p" and "of_int p < pow2 (bitlen p)"
proof -
  have b: "2 ^ nat (bitlen p - 1) \<le> p" "p < 2 ^ nat (bitlen p)"
    using bitlen_bounds [OF assms] by simp_all
  have pos: "0 < bitlen p"
    using assms bitlen_nonneg [of p] bitlen_eq_zero_iff [of p] by linarith
  have "pow2 (bitlen p - 1) = of_int (2 ^ nat (bitlen p - 1))"
    using pos by (simp add: pow2_def)
  also have "\<dots> \<le> of_int p" using b(1) by (simp only: of_int_le_iff)
  finally show "pow2 (bitlen p - 1) \<le> of_int p" .
  have "(of_int p :: rat) < of_int (2 ^ nat (bitlen p))" using b(2) by (simp only: of_int_less_iff)
  also have "\<dots> = pow2 (bitlen p)" using pos by (simp add: pow2_def)
  finally show "of_int p < pow2 (bitlen p)" .
qed

lemma binexp_bounds:
  assumes "x \<noteq> 0"
  shows "pow2 (binexp x) \<le> \<bar>x\<bar>" and "\<bar>x\<bar> < pow2 (binexp x + 1)"
proof -
  obtain p q where pq: "quotient_of \<bar>x\<bar> = (p, q)" by (cases "quotient_of \<bar>x\<bar>")
  have q: "0 < q" using pq by (rule quotient_of_denom_pos)
  have x: "\<bar>x\<bar> = of_int p / of_int q" using pq by (rule quotient_of_div)
  have p: "0 < p"
  proof -
    have "0 < \<bar>x\<bar>" using assms by simp
    then have "0 < (of_int p :: rat) / of_int q" using x by simp
    then show ?thesis using q by (simp add: zero_less_divide_iff)
  qed
  define k where "k = bitlen p - bitlen q"
  note bp = bitlen_pow2_bounds [OF p] and bq = bitlen_pow2_bounds [OF q]
  have qpos: "(0::rat) < of_int q" using q by simp
  have "pow2 (k - 1) * of_int q < pow2 (k - 1) * pow2 (bitlen q)"
    using bq(2) by simp
  also have "\<dots> = pow2 (bitlen p - 1)"
    by (simp add: k_def pow2_add [symmetric])
  also have "\<dots> \<le> of_int p" by (rule bp(1))
  finally have lo: "pow2 (k - 1) < \<bar>x\<bar>"
    using qpos by (simp add: x pos_less_divide_eq)
  have "of_int p < pow2 (bitlen p)" by (rule bp(2))
  also have "\<dots> = pow2 (k + 1) * pow2 (bitlen q - 1)"
    by (simp add: k_def pow2_add [symmetric])
  also have "\<dots> \<le> pow2 (k + 1) * of_int q"
    using bq(1) by simp
  finally have hi: "\<bar>x\<bar> < pow2 (k + 1)"
    using qpos by (simp add: x pos_divide_less_eq)
  have e: "binexp x = (if pow2 k \<le> \<bar>x\<bar> then k else k - 1)"
    by (simp add: binexp_def pq k_def Let_def)
  show "pow2 (binexp x) \<le> \<bar>x\<bar>" using lo by (simp add: e)
  show "\<bar>x\<bar> < pow2 (binexp x + 1)" using hi by (auto simp add: e)
qed

lemma binexp_less: "x \<noteq> 0 \<Longrightarrow> \<bar>x\<bar> < pow2 b \<Longrightarrow> binexp x < b"
  using binexp_bounds(1) [of x] pow2_less_cancel [of "binexp x" b] by simp

lemma round_half_even_error: "\<bar>of_int (round_half_even y) - y\<bar> \<le> 1 / 2"
proof -
  have "of_int \<lfloor>y\<rfloor> \<le> y" "y < of_int \<lfloor>y\<rfloor> + 1" by linarith+
  then show ?thesis
    by (auto simp: round_half_even_def Let_def abs_le_iff)
qed

lemma round_half_even_of_int [simp]: "round_half_even (of_int k) = k"
  by (simp add: round_half_even_def)

lemma round_half_even_pos: "1 \<le> y \<Longrightarrow> 0 < round_half_even y"
proof -
  assume "1 \<le> y"
  then have "(0::rat) < of_int (round_half_even y)"
    using round_half_even_error [of y] by linarith
  then show ?thesis by (simp only: of_int_0_less_iff)
qed

lemma round_half_even_neg: "y \<le> - 1 \<Longrightarrow> round_half_even y < 0"
proof -
  assume "y \<le> - 1"
  then have "of_int (round_half_even y) < (0::rat)"
    using round_half_even_error [of y] by linarith
  then show ?thesis by (simp only: of_int_less_0_iff)
qed

lemma round_half_even_nonneg: "0 \<le> y \<Longrightarrow> 0 \<le> round_half_even y"
proof -
  assume "0 \<le> y"
  then have "(- 1::rat) < of_int (round_half_even y)"
    using round_half_even_error [of y] by linarith
  then have "(of_int (- 1) :: rat) < of_int (round_half_even y)" by simp
  then have "- 1 < round_half_even y" by (simp only: of_int_less_iff)
  then show ?thesis by simp
qed

lemma float64_error:
  assumes "x \<noteq> 0"
  shows "\<bar>float64 x - x\<bar> \<le> pow2 (binexp x - 53)"
proof -
  define u where "u = pow2 (binexp x - 52)"
  have u: "0 < u" by (simp add: u_def)
  have f: "float64 x = of_int (round_half_even (x / u)) * u"
    using assms by (simp add: float64_def u_def Let_def)
  have "float64 x - x = (of_int (round_half_even (x / u)) - x / u) * u"
    using u by (simp add: f field_simps)
  then have "\<bar>float64 x - x\<bar> = \<bar>of_int (round_half_even (x / u)) - x / u\<bar> * u"
    using u by (simp add: abs_mult)
  also have "\<dots> \<le> 1 / 2 * u"
    using round_half_even_error [of "x / u"] u by (intro mult_right_mono) simp_all
  also have "\<dots> = pow2 (binexp x - 53)"
    using pow2_add [of "binexp x - 53" 1] by (simp add: u_def pow2_def)
  finally show ?thesis .
qed

lemma float64_sign:
  shows "0 < x \<Longrightarrow> 0 < float64 x" and "x < 0 \<Longrightarrow> float64 x < 0"
proof -
  define u where "u = pow2 (binexp x - 52)"
  have u: "0 < u" by (simp add: u_def)
  have big: "1 \<le> \<bar>x\<bar> / u" if "x \<noteq> 0"
  proof -
    have "u \<le> pow2 (binexp x)" unfolding u_def by (rule pow2_mono) simp
    also have "\<dots> \<le> \<bar>x\<bar>" using that by (rule binexp_bounds(1))
    finally show ?thesis using u by (simp add: pos_le_divide_eq)
  qed
  { assume x: "0 < x"
    then have "1 \<le> x / u" using big by simp
    then have "0 < round_half_even (x / u)" by (rule round_half_even_pos)
    then show "0 < float64 x" using x u by (simp add: float64_def u_def [symmetric] Let_def) }
  { assume x: "x < 0"
    then have "x / u \<le> - 1" using big by simp
    then have "round_half_even (x / u) < 0" by (rule round_half_even_neg)
    then show "float64 x < 0" using x u
      by (simp add: float64_def u_def [symmetric] Let_def mult_neg_pos) }
qed

lemma float64_of_int:
  assumes "\<bar>n\<bar> < 2 ^ 53"
  shows "float64 (of_int n) = of_int n"
proof (cases "n = 0")
  case False
  define x :: rat where "x = of_int n"
  have x0: "x \<noteq> 0" using False by (simp add: x_def)
  have "\<bar>x\<bar> < pow2 53"
  proof -
    have "\<bar>x\<bar> = of_int \<bar>n\<bar>" by (simp add: x_def)
    also have "\<dots> < of_int (2 ^ 53)" using assms by (simp only: of_int_less_iff)
    also have "\<dots> = pow2 53" by (simp add: pow2_def)
    finally show ?thesis .
  qed
  then have e: "binexp x < 53" using x0 by (rule binexp_less [rotated])
  define s where "s = nat (52 - binexp x)"
  have u: "pow2 (binexp x - 52) = 1 / 2 ^ s"
    using e by (auto simp: pow2_def s_def)
  have "x / (1 / 2 ^ s) = of_int (n * 2 ^ s)" by (simp add: x_def)
  then have "round_half_even (x / (1 / 2 ^ s)) = n * 2 ^ s"
    by (simp only: round_half_even_of_int)
  then have "float64 x = of_int (n * 2 ^ s) * (1 / 2 ^ s)"
    using x0 by (simp add: float64_def u Let_def)
  then show ?thesis by (simp add: x_def)
qed (simp add: float64_def)

section \<open>The duration in seconds\<close>

lemma pow2_nonneg [simp]: "0 \<le> pow2 e"
  using pow2_pos [of e] by (rule less_imp_le)

lemma trunc_split:
  fixes d :: int
  shows "d = (d sdiv 1000000000) * 1000000000 + d smod 1000000000"
    and "\<bar>d smod 1000000000\<bar> < 1000000000"
    and "0 \<le> d \<Longrightarrow> 0 \<le> d sdiv 1000000000 \<and> 0 \<le> d smod 1000000000"
    and "d \<le> 0 \<Longrightarrow> d sdiv 1000000000 \<le> 0 \<and> d smod 1000000000 \<le> 0"
    and "\<bar>d\<bar> \<le> 2 ^ 63 \<Longrightarrow> \<bar>d sdiv 1000000000\<bar> \<le> 9223372036"
proof -
  define a where "a = \<bar>d\<bar> div 1000000000"
  define b where "b = \<bar>d\<bar> mod 1000000000"
  have b: "0 \<le> b" "b < 1000000000" by (simp_all add: b_def)
  have a: "0 \<le> a" by (simp add: a_def)
  have e: "\<bar>d\<bar> = a * 1000000000 + b" by (simp add: a_def b_def)
  have s: "d sdiv 1000000000 = sgn d * a" "d smod 1000000000 = sgn d * b"
    by (simp_all add: signed_divide_int_def signed_modulo_int_def a_def b_def)
  consider (neg) "d < 0" | (zero) "d = 0" | (pos) "0 < d" by linarith
  then have all: "d = (sgn d * a) * 1000000000 + sgn d * b
      \<and> \<bar>sgn d * b\<bar> < 1000000000
      \<and> (0 \<le> d \<longrightarrow> 0 \<le> sgn d * a \<and> 0 \<le> sgn d * b)
      \<and> (d \<le> 0 \<longrightarrow> sgn d * a \<le> 0 \<and> sgn d * b \<le> 0)
      \<and> \<bar>sgn d * a\<bar> = a"
  proof cases
    case neg
    then show ?thesis using a b e by simp
  next
    case zero
    then show ?thesis using a b e by simp
  next
    case pos
    then show ?thesis using a b e by simp
  qed
  show "d = (d sdiv 1000000000) * 1000000000 + d smod 1000000000"
    using all by (simp only: s)
  show "\<bar>d smod 1000000000\<bar> < 1000000000"
    using all by (simp only: s)
  show "0 \<le> d \<Longrightarrow> 0 \<le> d sdiv 1000000000 \<and> 0 \<le> d smod 1000000000"
    using all by (simp only: s)
  show "d \<le> 0 \<Longrightarrow> d sdiv 1000000000 \<le> 0 \<and> d smod 1000000000 \<le> 0"
    using all by (simp only: s)
  show "\<bar>d\<bar> \<le> 2 ^ 63 \<Longrightarrow> \<bar>d sdiv 1000000000\<bar> \<le> 9223372036"
  proof -
    assume "\<bar>d\<bar> \<le> 2 ^ 63"
    then have "\<bar>d\<bar> div 1000000000 \<le> 2 ^ 63 div 1000000000" by (rule zdiv_mono1) simp
    then have "a \<le> 9223372036" by (simp add: a_def)
    then show ?thesis using all by (simp only: s)
  qed
qed

lemma Seconds_error:
  assumes "\<bar>d\<bar> \<le> 2 ^ 63"
  shows "\<bar>Seconds d - of_int d / 1000000000\<bar> \<le> pow2 (- 20) + pow2 (- 54)"
proof -
  define sec where "sec = d sdiv 1000000000"
  define nsec where "nsec = d smod 1000000000"
  define z :: rat where "z = of_int nsec / 1000000000"
  define y where "y = of_int sec + float64 z"
  have d: "d = sec * 1000000000 + nsec" and n: "\<bar>nsec\<bar> < 1000000000"
    and s: "\<bar>sec\<bar> \<le> 9223372036"
    unfolding sec_def nsec_def using trunc_split(1,2) [of d] trunc_split(5) [OF assms] by simp_all
  have fs: "float64 (of_int sec) = of_int sec"
    using s by (intro float64_of_int) simp
  have fn: "float64 (of_int nsec) = of_int nsec"
    using n by (intro float64_of_int) simp
  have S: "Seconds d = float64 y"
    by (simp add: Seconds_def Second_def sec_def [symmetric] nsec_def [symmetric] fs fn
        y_def z_def Let_def)
  have z1: "\<bar>z\<bar> < 1"
  proof -
    have "\<bar>of_int nsec :: rat\<bar> < of_int 1000000000"
      using n by (simp only: of_int_abs [symmetric] of_int_less_iff)
    then show ?thesis by (simp add: z_def)
  qed
  have ez: "\<bar>float64 z - z\<bar> \<le> pow2 (- 54)"
  proof (cases "z = 0")
    case True
    then show ?thesis by (simp add: float64_def)
  next
    case False
    have "binexp z < 0" using False z1 by (intro binexp_less) (simp_all add: pow2_def)
    then have "pow2 (binexp z - 53) \<le> pow2 (- 54)" by (intro pow2_mono) simp
    with float64_error [OF False] show ?thesis by simp
  qed
  have p54: "pow2 (- 54) \<le> 1" by (simp add: pow2_def)
  have sb: "\<bar>of_int sec :: rat\<bar> \<le> 9223372036"
  proof -
    have "\<bar>of_int sec :: rat\<bar> \<le> of_int 9223372036"
      using s by (simp only: of_int_abs [symmetric] of_int_le_iff)
    then show ?thesis by simp
  qed
  have yb: "\<bar>y\<bar> < pow2 34"
  proof -
    have "\<bar>y\<bar> \<le> \<bar>of_int sec\<bar> + \<bar>z\<bar> + \<bar>float64 z - z\<bar>" unfolding y_def by linarith
    also have "\<dots> < 9223372036 + 1 + 1" using sb z1 ez p54 by linarith
    also have "\<dots> \<le> pow2 34" by (simp add: pow2_def)
    finally show ?thesis .
  qed
  have ey: "\<bar>float64 y - y\<bar> \<le> pow2 (- 20)"
  proof (cases "y = 0")
    case True
    then show ?thesis by (simp add: float64_def)
  next
    case False
    have "binexp y < 34" using False yb by (rule binexp_less)
    then have "pow2 (binexp y - 53) \<le> pow2 (- 20)" by (intro pow2_mono) simp
    with float64_error [OF False] show ?thesis by simp
  qed
  have t: "(of_int d :: rat) / 1000000000 = of_int sec + z"
    by (simp add: d z_def add_divide_distrib)
  have "\<bar>float64 y - (of_int sec + z)\<bar> \<le> \<bar>float64 y - y\<bar> + \<bar>float64 z - z\<bar>"
    unfolding y_def by linarith
  then show ?thesis unfolding S t using ey ez by linarith
qed

lemma Seconds_sign:
  assumes "\<bar>d\<bar> \<le> 2 ^ 63"
  shows "Seconds d < 0 \<longleftrightarrow> d < 0"
proof -
  define sec where "sec = d sdiv 1000000000"
  define nsec where "nsec = d smod 1000000000"
  define z :: rat where "z = of_int nsec / 1000000000"
  define y where "y = of_int sec + float64 z"
  have d: "d = sec * 1000000000 + nsec" and n: "\<bar>nsec\<bar> < 1000000000"
    and s: "\<bar>sec\<bar> \<le> 9223372036"
    and pos: "0 \<le> d \<Longrightarrow> 0 \<le> sec \<and> 0 \<le> nsec"
    and neg: "d \<le> 0 \<Longrightarrow> sec \<le> 0 \<and> nsec \<le> 0"
    unfolding sec_def nsec_def
    using trunc_split(1,2,3,4) [of d] trunc_split(5) [OF assms] by simp_all
  have fs: "float64 (of_int sec) = of_int sec"
    using s by (intro float64_of_int) simp
  have fn: "float64 (of_int nsec) = of_int nsec"
    using n by (intro float64_of_int) simp
  have S: "Seconds d = float64 y"
    by (simp add: Seconds_def Second_def sec_def [symmetric] nsec_def [symmetric] fs fn
        y_def z_def Let_def)
  have fz: "float64 z \<le> 0" if "z \<le> 0" for z
    using that float64_sign(2) [of z] by (cases "z = 0") (simp_all add: float64_def)
  have fz': "0 \<le> float64 z" if "0 \<le> z" for z
    using that float64_sign(1) [of z] by (cases "z = 0") (simp_all add: float64_def)
  show ?thesis
  proof (cases "d < 0")
    case True
    then have sn: "sec \<le> 0" "nsec \<le> 0" using neg by simp_all
    have "y < 0"
    proof (cases "nsec = 0")
      case True
      then have "sec < 0" using d \<open>d < 0\<close> sn by simp
      then have "(of_int sec :: rat) < 0" by simp
      then show ?thesis using True by (simp add: y_def z_def float64_def)
    next
      case False
      then have "z < 0" using sn by (simp add: z_def)
      then have "float64 z < 0" by (rule float64_sign(2))
      moreover have "(of_int sec :: rat) \<le> 0" using sn by simp
      ultimately show ?thesis by (simp add: y_def)
    qed
    then have "float64 y < 0" by (rule float64_sign(2))
    then show ?thesis using True by (simp add: S)
  next
    case False
    then have "0 \<le> sec" "0 \<le> nsec" using pos by simp_all
    then have "(0::rat) \<le> of_int sec" "0 \<le> z" by (simp_all add: z_def)
    then have "0 \<le> y" using fz' [of z] by (simp add: y_def)
    then have "0 \<le> float64 y" by (rule fz')
    then show ?thesis using False by (simp add: S)
  qed
qed

section \<open>The formatted duration\<close>

lemma digit_is_digit [simp]: "is_digit (digit d)"
proof -
  have "nat (d mod 10) < length ''0123456789''" by simp
  then show ?thesis unfolding is_digit_def digit_def by (rule nth_mem)
qed

lemma digit_value_digit [simp]: "digit_value (digit d) = d mod 10"
proof -
  define k where "k = nat (d mod 10)"
  have k: "k < 10" and dk: "d mod 10 = int k" by (simp_all add: k_def)
  then have "k \<in> {0, 1, 2, 3, 4, 5, 6, 7, 8, 9}" by auto
  then have "int (of_char (''0123456789'' ! k)) - 48 = int k" by auto
  then show ?thesis by (simp add: digit_value_def digit_def k_def [symmetric] dk)
qed

lemma not_digit_dot [simp]: "\<not> is_digit CHR ''.''" "\<not> is_digit CHR ''-''"
  by (simp_all add: is_digit_def)

lemma decimal_snoc: "decimal (s @ [c]) = 10 * decimal s + digit_value c"
  by (simp add: decimal_def)

lemma digits_props:
  "0 \<le> n \<Longrightarrow> digits n \<noteq> [] \<and> list_all is_digit (digits n) \<and> decimal (digits n) = n"
proof (induction n rule: digits.induct)
  case (1 n)
  show ?case
  proof (cases "n < 10")
    case True
    then show ?thesis using "1.prems"
      by (subst (1 2 3) digits.simps) (simp add: decimal_def)
  next
    case False
    then have "digits (n div 10) \<noteq> [] \<and> list_all is_digit (digits (n div 10))
        \<and> decimal (digits (n div 10)) = n div 10"
      using "1.IH" "1.prems" by simp
    then show ?thesis using False
      by (subst (1 2 3) digits.simps) (simp add: decimal_snoc)
  qed
qed

lemma fraction_value:
  "decimal [digit (m div 100), digit (m div 10), digit m] = m mod 1000"
proof -
  have a: "m mod (100 * 10) = 100 * (m div 100 mod 10) + m mod 100"
    by (rule zmod_zmult2_eq) simp
  have b: "m mod (10 * 10) = 10 * (m div 10 mod 10) + m mod 10"
    by (rule zmod_zmult2_eq) simp
  have "decimal [digit (m div 100), digit (m div 10), digit m]
      = 100 * (m div 100 mod 10) + 10 * (m div 10 mod 10) + m mod 10"
    by (simp add: decimal_def)
  then show ?thesis using a b by simp
qed

lemma Sprintf_3f_unfold:
  "Sprintf_3f x =
     (if x < 0 then ''-'' else '''')
       @ (digits (round_half_even (\<bar>x\<bar> * 1000) div 1000)
          @ CHR ''.'' # [digit (round_half_even (\<bar>x\<bar> * 1000) div 100),
                        digit (round_half_even (\<bar>x\<bar> * 1000) div 10),
                        digit (round_half_even (\<bar>x\<bar> * 1000))])"
  by (simp add: Sprintf_3f_def Let_def)

lemma Sprintf_3f_props:
  "matches_fixed3 (Sprintf_3f x)
   \<and> (has_minus (Sprintf_3f x) \<longleftrightarrow> x < 0)
   \<and> \<bar>fixed3_value (Sprintf_3f x) - x\<bar> \<le> 1 / 2000"
proof -
  define m where "m = round_half_even (\<bar>x\<bar> * 1000)"
  define w where "w = digits (m div 1000)"
  define fr where "fr = [digit (m div 100), digit (m div 10), digit m]"
  define u where "u = w @ CHR ''.'' # fr"
  have m0: "0 \<le> m" unfolding m_def by (rule round_half_even_nonneg) simp
  then have "0 \<le> m div 1000" by simp
  from digits_props [OF this]
  have w: "w \<noteq> []" "list_all is_digit w" "decimal w = m div 1000" by (simp_all add: w_def)
  have out: "Sprintf_3f x = (if x < 0 then ''-'' else '''') @ u"
    by (simp add: Sprintf_3f_unfold u_def w_def fr_def m_def)
  have hw: "\<not> has_minus u"
    using w(1,2) by (cases w) (auto simp: has_minus_def u_def)
  have minus: "has_minus (Sprintf_3f x) \<longleftrightarrow> x < 0"
    using hw by (simp add: out has_minus_def)
  have up: "unsigned_part (Sprintf_3f x) = u"
    using hw by (simp add: unsigned_part_def out has_minus_def)
  have wd: "\<And>c. c \<in> set w \<Longrightarrow> is_digit c" using w(2) by (simp add: list_all_iff)
  have tw: "takeWhile is_digit u = w"
    unfolding u_def using wd by (simp add: takeWhile_append2)
  have dw: "dropWhile is_digit u = CHR ''.'' # fr"
    unfolding u_def using wd by (simp add: dropWhile_append2)
  have pat: "matches_fixed3 (Sprintf_3f x)"
    using w(1) by (simp add: matches_fixed3_def up tw dw Let_def) (simp add: fr_def)
  have "(of_int m :: rat) = of_int (m div 1000 * 1000 + m mod 1000)" by simp
  then have "(of_int m :: rat) = of_int (m div 1000) * 1000 + of_int (m mod 1000)"
    by (simp only: of_int_add of_int_mult of_int_numeral)
  then have "(of_int (m div 1000) :: rat) + of_int (m mod 1000) / 1000 = of_int m / 1000"
    by (simp add: add_divide_distrib)
  then have v: "(of_int (decimal w) :: rat) + of_int (decimal fr) / 1000 = of_int m / 1000"
    by (simp add: w(3) fr_def fraction_value)
  have val: "fixed3_value (Sprintf_3f x) = (if x < 0 then - (of_int m / 1000) else of_int m / 1000)"
    by (simp add: fixed3_value_def up tw dw minus v Let_def)
  have e: "\<bar>of_int m - \<bar>x\<bar> * 1000\<bar> \<le> 1 / 2"
    unfolding m_def by (rule round_half_even_error)
  have "\<bar>(if x < 0 then - (of_int m / 1000) else of_int m / 1000) - x\<bar> \<le> 1 / 2000"
  proof (cases "x < 0")
    case True
    then have "\<bar>- (of_int m / 1000) - x\<bar> \<le> 1 / 2000" using e by linarith
    then show ?thesis using True by (simp only: if_True)
  next
    case False
    then have "\<bar>of_int m / 1000 - x\<bar> \<le> 1 / 2000" using e by linarith
    then show ?thesis using False by (simp only: if_False)
  qed
  then have "\<bar>fixed3_value (Sprintf_3f x) - x\<bar> \<le> 1 / 2000"
    by (simp only: val)
  with pat minus show ?thesis by simp
qed

lemma Sub_props:
  "\<bar>Sub t u\<bar> \<le> 2 ^ 63" "Sub t u < 0 \<longleftrightarrow> t < u"
  "minDuration \<le> t - u \<Longrightarrow> t - u \<le> maxDuration \<Longrightarrow> Sub t u = t - u"
  "maxDuration < t - u \<Longrightarrow> Sub t u = maxDuration"
  "t - u < minDuration \<Longrightarrow> Sub t u = minDuration"
  by (auto simp: Sub_def minDuration_def maxDuration_def Let_def)

lemma calculateDuration_examples:
  "calculateDuration 0 1500000000 = ''1.500''"
  "calculateDuration 2500000 0 = ''-0.003''"
  "calculateDuration 1000 0 = ''-0.000''"
  "calculateDuration 0 62500000 = ''0.062''"
  by code_simp+

lemma Sprintf_3f_extremes:
  "Sprintf_3f (Seconds maxDuration) = ''9223372036.855''"
  "Sprintf_3f (Seconds minDuration) = ''-9223372036.855''"
  by code_simp+

text \<open>
  C3, as the code has it. For every pair of instants \<^verbatim>\<open>calculateDuration\<close> returns a
  string of the pattern \<^verbatim>\<open>-?\d+\.\d{3}\<close>, with a minus sign exactly when the end is
  before the start. When the difference fits a \<^verbatim>\<open>time.Duration\<close> the string denotes a
  number within \<open>0.000501\<close> of the difference in seconds (half a thousandth from the
  three decimals, the rest from the two float64 roundings). When it does not fit,
  \<^verbatim>\<open>Time.Sub\<close> has saturated and the string is that of the extreme duration.
\<close>

theorem calculateDuration_fixed3:
  "matches_fixed3 (calculateDuration start end')
   \<and> (has_minus (calculateDuration start end') \<longleftrightarrow> end' < start)
   \<and> (minDuration \<le> end' - start \<and> end' - start \<le> maxDuration \<longrightarrow>
        \<bar>fixed3_value (calculateDuration start end') - of_int (end' - start) / 1000000000\<bar>
          \<le> 501 / 1000000)
   \<and> (maxDuration < end' - start \<longrightarrow> calculateDuration start end' = ''9223372036.855'')
   \<and> (end' - start < minDuration \<longrightarrow> calculateDuration start end' = ''-9223372036.855'')"
proof -
  define d where "d = Sub end' start"
  define x where "x = Seconds d"
  have c: "calculateDuration start end' = Sprintf_3f x"
    by (simp add: calculateDuration_def x_def d_def)
  have d63: "\<bar>d\<bar> \<le> 2 ^ 63" unfolding d_def by (rule Sub_props(1))
  have sign: "x < 0 \<longleftrightarrow> end' < start"
    unfolding x_def using Seconds_sign [OF d63] Sub_props(2) [of end' start] by (simp add: d_def)
  have p: "matches_fixed3 (Sprintf_3f x)" "has_minus (Sprintf_3f x) \<longleftrightarrow> x < 0"
    "\<bar>fixed3_value (Sprintf_3f x) - x\<bar> \<le> 1 / 2000"
    using Sprintf_3f_props [of x] by simp_all
  have v: "\<bar>fixed3_value (Sprintf_3f x) - of_int (end' - start) / 1000000000\<bar> \<le> 501 / 1000000"
    if "minDuration \<le> end' - start" "end' - start \<le> maxDuration"
  proof -
    have "d = end' - start" unfolding d_def using that by (rule Sub_props(3))
    then have "\<bar>x - of_int (end' - start) / 1000000000\<bar> \<le> pow2 (- 20) + pow2 (- 54)"
      using Seconds_error [OF d63] by (simp add: x_def)
    moreover have "pow2 (- 20) + pow2 (- 54) \<le> 1 / 1000000" by (simp add: pow2_def)
    ultimately show ?thesis using p(3) by linarith
  qed
  have hi: "Sprintf_3f x = ''9223372036.855''" if "maxDuration < end' - start"
    using Sub_props(4) [OF that] by (simp only: x_def d_def Sprintf_3f_extremes)
  have lo: "Sprintf_3f x = ''-9223372036.855''" if "end' - start < minDuration"
    using Sub_props(5) [OF that] by (simp only: x_def d_def Sprintf_3f_extremes)
  show ?thesis unfolding c using p(1,2) sign v hi lo by simp
qed

theorem calculateDuration_fixed3_witness:
  "minDuration \<le> 1500000000 - 0 \<and> 1500000000 - 0 \<le> maxDuration
   \<and> matches_fixed3 (calculateDuration 0 1500000000)
   \<and> \<not> has_minus (calculateDuration 0 1500000000)
   \<and> \<bar>fixed3_value (calculateDuration 0 1500000000) - 1500000000 / 1000000000\<bar> \<le> 501 / 1000000
   \<and> maxDuration < 63929296800000000000 - zeroTime
   \<and> calculateDuration zeroTime 63929296800000000000 = ''9223372036.855''
   \<and> 0 - 63929296800000000000 < minDuration
   \<and> calculateDuration 63929296800000000000 0 = ''-9223372036.855''"
  using calculateDuration_fixed3 [of 0 1500000000]
    calculateDuration_fixed3 [of zeroTime 63929296800000000000]
    calculateDuration_fixed3 [of 63929296800000000000 0]
  by (simp add: minDuration_def maxDuration_def zeroTime_def)

text \<open>
  C3 as stated fails where the difference does not fit a \<^verbatim>\<open>time.Duration\<close>: from the
  zero time to an instant in the year 2026 (63929296800 seconds later) the string is
  \<open>9223372036.855\<close>.
\<close>

theorem calculateDuration_saturates_counterexample:
  "calculateDuration zeroTime 63929296800000000000 = ''9223372036.855''
   \<and> \<not> \<bar>fixed3_value (calculateDuration zeroTime 63929296800000000000)
          - of_int (63929296800000000000 - zeroTime) / 1000000000\<bar> \<le> 501 / 1000000"
  by code_simp

section \<open>Close: the failure count and the frame\<close>

lemma Close_unfold:
  "Close now tr =
     Close_loop (Reports tr)
       (tr\<lparr>TestsReport.EndTime := now,
           TestsReport.Time := calculateDuration (TestsReport.StartTime tr) now\<rparr>)"
  by (simp add: Close_def Let_def)

lemma Close_loop_frame:
  "snd (Close_loop tests tr) = tr\<lparr>Failures := Failures (snd (Close_loop tests tr))\<rparr>"
proof (induction tests tr rule: Close_loop.induct)
  case (3 test tests tr)
  then show ?case by (cases "Failure test") auto
qed simp_all






text \<open>
  C2: the code at a suite with one failed test, closed twice with nothing changed in
  between. The first \<^verbatim>\<open>Close\<close> leaves 1 in \<^verbatim>\<open>Failures\<close>, the second leaves 2.
\<close>

theorem Close_twice_accumulates:
  "Failures (snd (Close 1000000 (AddTest (Some failing_test) (NewTests 0 ''smoke'')))) = 1
   \<and> Failures (snd (Close 2000000 (snd (Close 1000000
        (AddTest (Some failing_test) (NewTests 0 ''smoke'')))))) = 2"
  by (simp add: Close_unfold AddTest_def NewTests_def failing_test_def NewTest_def)

text \<open>
  C10: \<^verbatim>\<open>Close\<close> returns the suite it was given with new values in \<^verbatim>\<open>EndTime\<close>,
  \<^verbatim>\<open>Time\<close> and \<^verbatim>\<open>Failures\<close> and nothing else changed: the name, the start time and
  the sequence of reports, with every report under it, are as before, also when the loop
  panics.
\<close>

theorem Close_frame:
  "snd (Close now tr) =
     tr\<lparr>TestsReport.EndTime := now,
        TestsReport.Time := calculateDuration (TestsReport.StartTime tr) now,
        Failures := Failures (snd (Close now tr))\<rparr>
   \<and> TestsReport.Name (snd (Close now tr)) = TestsReport.Name tr
   \<and> TestsReport.StartTime (snd (Close now tr)) = TestsReport.StartTime tr
   \<and> Reports (snd (Close now tr)) = Reports tr
   \<and> length (Reports (snd (Close now tr))) = length (Reports tr)"
proof -
  define F where "F = Failures (snd (Close now tr))"
  have "snd (Close now tr) =
     tr\<lparr>TestsReport.EndTime := now,
        TestsReport.Time := calculateDuration (TestsReport.StartTime tr) now, Failures := F\<rparr>"
    unfolding F_def Close_unfold
    by (subst Close_loop_frame) simp
  then show ?thesis by simp
qed

section \<open>Marking the end of a test and of an operation\<close>

text \<open>
  C9: \<^verbatim>\<open>MarkTestEnd\<close> stores the current instant in \<^verbatim>\<open>EndTime\<close> and the formatted
  duration from \<^verbatim>\<open>StartTime\<close> to that instant in \<^verbatim>\<open>Time\<close>, and leaves every other
  field as it was; a second call overwrites both fields with its own values.
  \<^verbatim>\<open>MarkOperationEnd\<close> does the same to an operation report.
\<close>

theorem MarkEnd_contract:
  "MarkTestEnd now t =
     t\<lparr>TestReport.EndTime := now,
       TestReport.Time := calculateDuration (TestReport.StartTime t) now\<rparr>
   \<and> TestReport.EndTime (MarkTestEnd now t) = now
   \<and> TestReport.Time (MarkTestEnd now t) = calculateDuration (TestReport.StartTime t) now
   \<and> TestReport.Name (MarkTestEnd now t) = TestReport.Name t
   \<and> TestReport.StartTime (MarkTestEnd now t) = TestReport.StartTime t
   \<and> Failure (MarkTestEnd now t) = Failure t
   \<and> Steps (MarkTestEnd now t) = Steps t
   \<and> Concurrent (MarkTestEnd now t) = Concurrent t
   \<and> Namespace (MarkTestEnd now t) = Namespace t
   \<and> Skip (MarkTestEnd now t) = Skip t
   \<and> SkipDelete (MarkTestEnd now t) = SkipDelete t
   \<and> MarkTestEnd now2 (MarkTestEnd now1 t) = MarkTestEnd now2 t
   \<and> MarkOperationEnd now op =
       op\<lparr>OperationReport.EndTime := now,
          OperationReport.Time := calculateDuration (OperationReport.StartTime op) now\<rparr>
   \<and> OperationReport.Name (MarkOperationEnd now op) = OperationReport.Name op
   \<and> OperationReport.StartTime (MarkOperationEnd now op) = OperationReport.StartTime op
   \<and> Result (MarkOperationEnd now op) = Result op
   \<and> OperationReport.Message (MarkOperationEnd now op) = OperationReport.Message op
   \<and> OperationType (MarkOperationEnd now op) = OperationType op
   \<and> MarkOperationEnd now2 (MarkOperationEnd now1 op) = MarkOperationEnd now2 op"
  by (simp add: MarkTestEnd_def MarkOperationEnd_def Let_def)

section \<open>Appending\<close>

lemma suite_step_prefix: "prefix (Reports tr) (Reports (suite_step op tr))"
proof (cases op)
  case (Op_AddTest test)
  then show ?thesis by (simp add: AddTest_def)
next
  case (Op_Close now)
  have "Reports (snd (Close now tr)) = Reports tr"
    unfolding Close_unfold by (subst Close_loop_frame) simp
  with Op_Close show ?thesis by simp
qed

lemma suite_ops_prefix: "prefix (Reports tr) (Reports (fold suite_step ops tr))"
proof (induction ops arbitrary: tr)
  case (Cons op ops)
  have "prefix (Reports tr) (Reports (suite_step op tr))" by (rule suite_step_prefix)
  also have "prefix \<dots> (Reports (fold suite_step ops (suite_step op tr)))" by (rule Cons.IH)
  finally show ?case by simp
qed simp

lemma test_step_prefix: "prefix (Steps t) (Steps (test_step op t))"
  by (cases op) (simp_all add: AddTestStep_def MarkTestEnd_def Let_def)

lemma test_ops_prefix: "prefix (Steps t) (Steps (fold test_step ops t))"
proof (induction ops arbitrary: t)
  case (Cons op ops)
  have "prefix (Steps t) (Steps (test_step op t))" by (rule test_step_prefix)
  also have "prefix \<dots> (Steps (fold test_step ops (test_step op t)))" by (rule Cons.IH)
  finally show ?case by simp
qed simp

lemma step_ops_prefix: "prefix (Results ts) (Results (fold step_step ops ts))"
proof (induction ops arbitrary: ts)
  case (Cons op ops)
  have "prefix (Results ts) (Results (step_step op ts))"
    by (cases op) (simp add: AddOperation_def)
  also have "prefix \<dots> (Results (fold step_step ops (step_step op ts)))" by (rule Cons.IH)
  finally show ?case by simp
qed simp

text \<open>
  C7: three appends put the three tests at the end of the sequence in the order of the
  calls, so on a new suite the sequence is exactly the three tests, with their names in
  that order; the same holds for steps and for operations. Whatever operations of the
  package are applied to a suite, a test or a step, the sequence it held before is a
  prefix of the one it holds after: nothing is removed or reordered.
\<close>

theorem append_order_preserved:
  "Reports (AddTest c (AddTest b (AddTest a tr))) = Reports tr @ [a, b, c]
   \<and> Reports (AddTest c (AddTest b (AddTest a (NewTests now name)))) = [a, b, c]
   \<and> map (map_option TestReport.Name)
        (Reports (AddTest (Some (NewTest n3 ''c'' c3 ns3 s3 d3))
                 (AddTest (Some (NewTest n2 ''b'' c2 ns2 s2 d2))
                 (AddTest (Some (NewTest n1 ''a'' c1 ns1 s1 d1)) (NewTests now name)))))
      = [Some ''a'', Some ''b'', Some ''c'']
   \<and> Steps (AddTestStep z (AddTestStep y (AddTestStep x t))) = Steps t @ [x, y, z]
   \<and> Results (AddOperation r (AddOperation q (AddOperation p ts))) = Results ts @ [p, q, r]
   \<and> prefix (Reports tr) (Reports (fold suite_step sops tr))
   \<and> prefix (Steps t) (Steps (fold test_step tops t))
   \<and> prefix (Results ts) (Results (fold step_step pops ts))"
  using suite_ops_prefix [of tr sops] test_ops_prefix [of t tops] step_ops_prefix [of ts pops]
  by (simp add: AddTest_def AddTestStep_def AddOperation_def NewTests_def NewTest_def)

section \<open>Selecting a serializer, saving a report\<close>

text \<open>
  C4: with the two format identifiers distinct (Go rejects a switch with the same
  constant in two cases), \<^verbatim>\<open>GetSerializer\<close> returns the JSON encoder for the JSON
  identifier and the XML encoder for the XML identifier, and for every other identifier
  the error \<open>unsupported report format\<close> and no serializer; so it returns a serializer
  exactly for the two identifiers.
\<close>

theorem GetSerializer_selects:
  assumes "JSONFormat v \<noteq> XMLFormat v"
  shows "GetSerializer v (JSONFormat v) = Inr JSONSerializer
    \<and> GetSerializer v (XMLFormat v) = Inr XMLSerializer
    \<and> (if format = JSONFormat v \<or> format = XMLFormat v
        then GetSerializer v format \<in> {Inr JSONSerializer, Inr XMLSerializer}
        else GetSerializer v format = Inl (errors_New ''unsupported report format''))
    \<and> ((\<exists>s. GetSerializer v format = Inr s) \<longleftrightarrow> format = JSONFormat v \<or> format = XMLFormat v)"
  using assms by (auto simp: GetSerializer_def)

theorem GetSerializer_selects_witness:
  "JSONFormat example_formats \<noteq> XMLFormat example_formats
   \<and> GetSerializer example_formats ''JSON'' = Inr JSONSerializer
   \<and> GetSerializer example_formats ''XML'' = Inr XMLSerializer
   \<and> GetSerializer example_formats ''yaml'' = Inl (errors_New ''unsupported report format'')"
  using GetSerializer_selects [of example_formats "''yaml''"]
  by (simp add: example_formats_def)






section \<open>Optional members of the structured document\<close>



section \<open>The end-to-end scenario\<close>

lemma smoke_durations:
  "calculateDuration 0 50000000 = ''0.050''"
  "calculateDuration 10000000 40000000 = ''0.030''"
  by code_simp+

lemma smoke_suite_closed:
  "fst (Close 50000000 smoke_suite) = None"
  "Failures (snd (Close 50000000 smoke_suite)) = 0"
  "TestsReport.Time (snd (Close 50000000 smoke_suite)) = ''0.050''"
  "map (map_option TestReport.Name) (Reports (snd (Close 50000000 smoke_suite))) = [Some ''t1'']"
  "map (map_option TestReport.Time) (Reports (snd (Close 50000000 smoke_suite))) = [Some ''0.030'']"
  "map (map_option (map (map_option (map (map_option OperationType) \<circ> Results)) \<circ> Steps))
       (Reports (snd (Close 50000000 smoke_suite)))
     = [Some [Some [Some ''apply'']]]"
  by (simp_all add: smoke_suite_def smoke_test_def Close_unfold AddTest_def AddTestStep_def
      AddOperation_def MarkTestEnd_def MarkOperationEnd_def NewTests_def NewTest_def
      NewTestSpecStep_def NewOperation_def OperationTypeApply_def smoke_durations Let_def)

end
